theory Spec2Isabelle
  imports Complex_Main "HOL-Library.Multiset"
begin

section \<open>Ingredient strings\<close>

text \<open>
  The scorer compares ingredients after \<^verbatim>\<open>s.lower().strip()\<close>. Strings are
  \<^typ>\<open>string\<close>; the two string methods are modelled on ASCII text: \<open>lower\<close> maps
  \<open>A..Z\<close> to \<open>a..z\<close> and leaves every other character alone, \<open>strip\<close> removes
  the leading and trailing characters that \<^verbatim>\<open>str.isspace\<close> accepts in the ASCII
  range (codes 9 to 13, 28 to 31 and 32).
\<close>

definition upper_to_lower :: "(char \<times> char) list" where
  "upper_to_lower = zip ''ABCDEFGHIJKLMNOPQRSTUVWXYZ'' ''abcdefghijklmnopqrstuvwxyz''"

definition lower_char :: "char \<Rightarrow> char" where
  "lower_char c = (case map_of upper_to_lower c of Some d \<Rightarrow> d | None \<Rightarrow> c)"

definition lower :: "string \<Rightarrow> string" where
  "lower s = map lower_char s"

definition isspace :: "char \<Rightarrow> bool" where
  "isspace c = ((of_char c :: nat) \<in> {9, 10, 11, 12, 13, 28, 29, 30, 31, 32})"

definition strip :: "string \<Rightarrow> string" where
  "strip s = rev (dropWhile isspace (rev (dropWhile isspace s)))"

text \<open>The expression \<^verbatim>\<open>x.lower().strip()\<close> that the scorer applies to every name.\<close>

definition lower_strip :: "string \<Rightarrow> string" where
  "lower_strip s = strip (lower s)"

section \<open>Module constants\<close>

text \<open>The dictionary \<^verbatim>\<open>SUBSTITUTIONS\<close>, in the order of the source.\<close>

definition SUBSTITUTIONS :: "(string \<times> string list) list" where
  "SUBSTITUTIONS =
    [(''milk'', [''almond milk'', ''soy milk'', ''oat milk'', ''coconut milk'']),
     (''butter'', [''margarine'', ''coconut oil'', ''olive oil'']),
     (''sugar'', [''honey'', ''maple syrup'', ''agave nectar'', ''brown sugar'']),
     (''egg'', [''egg substitute'', ''flax egg'']),
     (''flour'', [''almond flour'', ''coconut flour'', ''whole wheat flour'']),
     (''salt'', [''sea salt'', ''kosher salt'']),
     (''baking powder'', [''baking soda'']),
     (''cheese'', [''colby jack'', ''monterey jack'', ''cheddar'', ''mozzerella'']),
     (''cream'', [''coconut cream'', ''cashew cream'', ''sour cream'']),
     (''vanilla extract'', [''vanilla bean'', ''vanilla paste'']),
     (''oil'', [''canola oil'', ''vegetable oil''])]"

definition SAMPLE_INGREDIENTS :: "string list" where
  "SAMPLE_INGREDIENTS = [''yeast'', ''flour'']"

definition DEFAULT_INGREDIENTS :: "string set" where
  "DEFAULT_INGREDIENTS =
    {''salt'', ''water'', ''oil'', ''pepper'', ''warm water'', ''salt and pepper'', ''salt pepper''}"

section \<open>The match scorer\<close>

text \<open>
  Scores are Python floats in the source; the model computes with exact rationals, so
  \<open>0.5\<close> is \<open>1/2\<close>, \<open>0.2\<close> is \<open>1/5\<close> and \<open>0.6\<close> is \<open>3/5\<close>.

  The loop of \<^verbatim>\<open>ingredient_match_score\<close> that accumulates \<^verbatim>\<open>matched\<close>:
  one step per recipe ingredient, in list order, duplicates included.
\<close>

fun matched_loop :: "string set \<Rightarrow> bool \<Rightarrow> string list \<Rightarrow> rat \<Rightarrow> rat" where
  "matched_loop augmented_user_set substitutions_allowed [] matched = matched"
| "matched_loop augmented_user_set substitutions_allowed (ingr # rest) matched =
    (let ingr_norm = lower_strip ingr in
     if ingr_norm \<in> augmented_user_set then
       matched_loop augmented_user_set substitutions_allowed rest (matched + 1)
     else if substitutions_allowed \<and> map_of SUBSTITUTIONS ingr_norm \<noteq> None then
       (if list_ex (\<lambda>sub. lower_strip sub \<in> augmented_user_set)
             (the (map_of SUBSTITUTIONS ingr_norm))
        then matched_loop augmented_user_set substitutions_allowed rest (matched + 1 / 2)
        else matched_loop augmented_user_set substitutions_allowed rest matched)
     else matched_loop augmented_user_set substitutions_allowed rest matched)"

definition ingredient_match_score ::
  "string list \<Rightarrow> string list \<Rightarrow> bool \<Rightarrow> bool \<Rightarrow> rat \<Rightarrow> rat" where
  "ingredient_match_score user_ingredients recipe_ingredients substitutions_allowed
      user_willing_to_buy_more beta =
    (let user_explicit = set (map lower_strip user_ingredients);
         augmented_user_set = user_explicit \<union> DEFAULT_INGREDIENTS;
         recipe_non_default =
           set (map lower_strip
                 (filter (\<lambda>r. lower_strip r \<notin> DEFAULT_INGREDIENTS) recipe_ingredients))
     in if \<not> user_willing_to_buy_more then
          (if \<not> recipe_non_default \<subseteq> user_explicit then 0 else 1)
        else
          (let total = length recipe_ingredients in
           if total = 0 then 1
           else
             (let matched = matched_loop augmented_user_set substitutions_allowed
                              recipe_ingredients 0;
                  base_score = matched / of_nat total;
                  bonus =
                    (if user_explicit \<noteq> {} then
                       of_nat (length (filter (\<lambda>ingr. lower_strip ingr \<in> user_explicit)
                                         recipe_ingredients))
                         / of_nat (card user_explicit)
                     else 0);
                  bonus_factor = 1 + beta * bonus;
                  final_score = base_score * bonus_factor
              in min final_score 1)))"

text \<open>
  The contribution of one recipe ingredient to \<^verbatim>\<open>matched\<close> as the specification
  words it (section 4.2, step 4): \<open>1\<close> for a direct match in the augmented set; otherwise,
  when substitutions are allowed and the table has an entry, \<open>1/2\<close> if any substitute is in
  the augmented set; otherwise \<open>0\<close>. It is compared with \<open>matched_loop\<close> below.
\<close>

definition spec_credit :: "string set \<Rightarrow> bool \<Rightarrow> string \<Rightarrow> rat" where
  "spec_credit augmented substitutions_allowed ingr =
    (if lower_strip ingr \<in> augmented then 1
     else if substitutions_allowed \<and> lower_strip ingr \<in> dom (map_of SUBSTITUTIONS) then
       (if \<exists>sub \<in> set (the (map_of SUBSTITUTIONS (lower_strip ingr))).
             lower_strip sub \<in> augmented
        then 1 / 2 else 0)
     else 0)"

section \<open>The recipe table\<close>

text \<open>
  A row of the pandas table \<^verbatim>\<open>recipe_db\<close>. The columns \<^verbatim>\<open>ingredients\<close>,
  \<^verbatim>\<open>ingredients_raw\<close> and \<^verbatim>\<open>steps\<close> hold a list of strings or something that
  is not a list (a missing value): \<open>Some xs\<close> is a list cell, \<open>None\<close> any other cell.
  A cell that holds a string-encoded list is taken as the list it encodes. The columns
  from \<open>ingredients_raw_text\<close> on are assigned by \<^verbatim>\<open>get_recommendations\<close> before it
  reads them.
\<close>

type_synonym cell = "string list option"

record row =
  recipe_id :: int
  name :: string
  ingredients :: cell
  ingredients_raw :: cell
  steps :: cell
  ingredients_raw_text :: string
  ingredients_text :: string
  steps_text :: string
  full_text :: string
  predicted_cuisine :: string
  predicted_meal_type :: string
  ingredient_score :: rat
  model_score :: rat
  final_score :: rat

text \<open>
  The dictionary returned by \<^verbatim>\<open>get_user_preferences\<close>: the keys read with
  \<^verbatim>\<open>prefs[...]\<close> are fields, the keys read with \<^verbatim>\<open>prefs.get(..., default)\<close>
  are optional fields.
\<close>

record prefs =
  cuisine :: string
  meal_type :: string
  servings :: "rat option"
  pref_ingredients :: "string list option"
  allow_substitutions :: "bool option"
  use_grocery :: "bool option"

text \<open>
  Every exception raised inside \<^verbatim>\<open>get_recommendations\<close> reaches the single handler
  \<^verbatim>\<open>except Exception\<close>. The exceptions of the model: an oracle call that throws, a
  column assignment of the wrong length, the \<^verbatim>\<open>.str\<close> accessor on a column that
  holds no strings, an index outside the prediction matrix.
\<close>

datatype exn = Oracle_failure | Value_error | Attribute_error | Index_error

text \<open>The line the function prints before it returns: it tells the final states apart.\<close>

datatype message =
    No_matching_recipes
  | No_recipes_only_your_ingredients
  | Top_recipe
  | No_suitable_recipes
  | Error_generating exn

type_synonym classifier = "string list \<Rightarrow> string list option"

text \<open>A classifier that never throws and labels each text of a batch on its own.\<close>

definition pointwise :: "(string \<Rightarrow> string) \<Rightarrow> classifier" where
  "pointwise label batch = Some (map label batch)"

section \<open>Step 1: text features and the cuisine and meal-type filter\<close>

definition as_list :: "cell \<Rightarrow> string list" where
  "as_list x = (case x of Some xs \<Rightarrow> xs | None \<Rightarrow> [])"

fun join :: "string list \<Rightarrow> string" where
  "join [] = []"
| "join [x] = x"
| "join (x # y # ys) = x @ '' '' @ join (y # ys)"

definition join_cell :: "cell \<Rightarrow> string" where
  "join_cell x = (case x of Some xs \<Rightarrow> join xs | None \<Rightarrow> [])"

text \<open>Lines 210 to 223, for one row.\<close>

definition text_features :: "row \<Rightarrow> row" where
  "text_features r =
    (let r1 = r\<lparr>ingredients := Some (as_list (ingredients r))\<rparr>;
         r2 = r1\<lparr>ingredients_raw_text := join_cell (ingredients_raw r1)\<rparr>;
         r3 = r2\<lparr>ingredients_text := join_cell (ingredients r2)\<rparr>;
         r4 = r3\<lparr>steps_text := join_cell (steps r3)\<rparr>
     in r4\<lparr>full_text :=
             ingredients_text r4 @ '' '' @ ingredients_raw_text r4 @ '' '' @ steps_text r4\<rparr>)"

definition batch_size :: nat where
  "batch_size = 500"

text \<open>
  The loop \<^verbatim>\<open>for i in range(0, len(recipe_db), batch_size)\<close>: \<open>i\<close> is the loop
  index and \<open>acc\<close> the list the predictions are appended to.
\<close>

function predict_in_batches ::
  "classifier \<Rightarrow> string list \<Rightarrow> nat \<Rightarrow> string list \<Rightarrow> string list option" where
  "predict_in_batches clf col i acc =
    (if i < length col then
       (case clf (take batch_size (drop i col)) of
          None \<Rightarrow> None
        | Some predictions \<Rightarrow> predict_in_batches clf col (i + batch_size) (acc @ predictions))
     else Some acc)"
  by pat_completeness auto
termination
  by (relation "measure (\<lambda>(clf, col, i, acc). length col - i)") (auto simp: batch_size_def)

definition USER_TO_CATEGORY :: "(string \<times> string) list" where
  "USER_TO_CATEGORY =
    [(''Breakfast'', ''breakfast''),
     (''Full Meal'', ''meals''),
     (''Sweet Treat'', ''sweet treat''),
     (''Snack'', ''snacks'')]"

text \<open>\<^verbatim>\<open>USER_TO_CATEGORY.get(prefs["meal_type"], "unknown")\<close>\<close>

definition meal_category :: "string \<Rightarrow> string" where
  "meal_category label =
    (case map_of USER_TO_CATEGORY label of Some c \<Rightarrow> c | None \<Rightarrow> ''unknown'')"

text \<open>
  Lines 210 to 248. The cuisine classifier reads the column \<open>ingredients_raw_text\<close>,
  the meal-type classifier the column \<open>full_text\<close>. Assigning a column of the wrong
  length raises \<^verbatim>\<open>ValueError\<close>. On a table with no row neither loop calls its
  classifier, the two label columns are assigned the empty list and hold no strings, and
  the \<^verbatim>\<open>.str\<close> accessor of line 246 raises \<^verbatim>\<open>AttributeError\<close>.
\<close>

definition prefilter ::
  "classifier \<Rightarrow> classifier \<Rightarrow> row list \<Rightarrow> string \<Rightarrow> string \<Rightarrow> exn + row list" where
  "prefilter cuisine_clf meal_clf recipe_db selected_cuisine selected_meal_type =
    (let db1 = map text_features recipe_db in
     case predict_in_batches cuisine_clf (map ingredients_raw_text db1) 0 [] of
       None \<Rightarrow> Inl Oracle_failure
     | Some cuisines \<Rightarrow>
         if length cuisines \<noteq> length db1 then Inl Value_error
         else
           (let db2 = map (\<lambda>(r, c). r\<lparr>predicted_cuisine := c\<rparr>) (zip db1 cuisines) in
            case predict_in_batches meal_clf (map full_text db2) 0 [] of
              None \<Rightarrow> Inl Oracle_failure
            | Some meal_types \<Rightarrow>
                if length meal_types \<noteq> length db2 then Inl Value_error
                else
                  (let db3 = map (\<lambda>(r, m). r\<lparr>predicted_meal_type := m\<rparr>) (zip db2 meal_types)
                   in if db3 = [] then Inl Attribute_error
                      else Inr (filter (\<lambda>r. lower (predicted_cuisine r) = selected_cuisine
                                           \<and> lower (predicted_meal_type r) = selected_meal_type)
                                  db3))))"

section \<open>Step 2: ingredient scores\<close>

text \<open>
  Lines 268 to 279. When the cell \<open>ingredients_raw\<close> is a list, the two lists are
  combined with \<^verbatim>\<open>list(set(ingr_list) | set(raw_ingr))\<close>; the order of that list is
  not fixed by Python, the model takes the concatenation with every repeated element
  removed (\<open>remdups\<close>). Otherwise the list of \<open>ingredients\<close> is used as it is.
\<close>

definition effective_ingredients :: "row \<Rightarrow> string list" where
  "effective_ingredients recipe =
    (let ingr_list = as_list (ingredients recipe) in
     case ingredients_raw recipe of
       Some raw_ingr \<Rightarrow> remdups (ingr_list @ raw_ingr)
     | None \<Rightarrow> ingr_list)"

text \<open>Lines 265 to 284: the column \<open>ingredient_score\<close>.\<close>

definition score_recipes :: "string list \<Rightarrow> bool \<Rightarrow> bool \<Rightarrow> row list \<Rightarrow> row list" where
  "score_recipes user_ingredients allow_subs grocery matching_recipes =
    map (\<lambda>recipe. recipe\<lparr>ingredient_score :=
           ingredient_match_score user_ingredients (effective_ingredients recipe)
             allow_subs grocery (1 / 5)\<rparr>)
      matching_recipes"

text \<open>Lines 287 and 288: the recipes that go on to the ranking.\<close>

definition feasible_recipes :: "bool \<Rightarrow> row list \<Rightarrow> row list" where
  "feasible_recipes grocery matching_recipes =
    (if \<not> grocery then filter (\<lambda>r. ingredient_score r > 0) matching_recipes
     else matching_recipes)"

section \<open>Step 3: ranking\<close>

text \<open>\<^verbatim>\<open>np.where(recipe_ids == recipe_id)[0][0]\<close>: the first position of an identifier.\<close>

fun first_index :: "int list \<Rightarrow> int \<Rightarrow> nat" where
  "first_index [] x = 0"
| "first_index (y # ys) x = (if y = x then 0 else Suc (first_index ys x))"

text \<open>
  Lines 323 to 327: the pairs are \<^verbatim>\<open>enumerate(matching_recipes['id'])\<close>; every row
  with the identifier receives \<^verbatim>\<open>predictions[i, idx[0]]\<close>, and an index outside the
  matrix raises \<^verbatim>\<open>IndexError\<close>.
\<close>

fun assign_model_scores ::
  "int list \<Rightarrow> rat list list \<Rightarrow> (nat \<times> int) list \<Rightarrow> row list \<Rightarrow> exn + row list" where
  "assign_model_scores recipe_ids predictions [] rows = Inr rows"
| "assign_model_scores recipe_ids predictions ((i, rid) # rest) rows =
    (if rid \<in> set recipe_ids then
       (let j = first_index recipe_ids rid in
        if i < length predictions \<and> j < length (predictions ! i) then
          assign_model_scores recipe_ids predictions rest
            (map (\<lambda>r. if recipe_id r = rid then r\<lparr>model_score := predictions ! i ! j\<rparr> else r)
               rows)
        else Inl Index_error)
     else assign_model_scores recipe_ids predictions rest rows)"

text \<open>
  Lines 297 to 333. \<open>sort_values\<close> stands for the library call
  \<^verbatim>\<open>DataFrame.sort_values(by='final_score', ascending=False)\<close>, \<open>infer\<close> for the
  serving signature of the ranking model and \<open>recipe_ids\<close> for
  \<^verbatim>\<open>le_recipe.classes_\<close>.
\<close>

definition rank_recipes ::
  "(row list \<Rightarrow> row list) \<Rightarrow> (string list \<Rightarrow> rat \<Rightarrow> rat list list option) \<Rightarrow> int list
     \<Rightarrow> rat \<Rightarrow> row list \<Rightarrow> exn + row list" where
  "rank_recipes sort_values infer recipe_ids requested_servings matching_recipes =
    (case infer (map full_text matching_recipes) requested_servings of
       None \<Rightarrow> Inl Oracle_failure
     | Some predictions \<Rightarrow>
         (case assign_model_scores recipe_ids predictions
                 (zip [0..<length matching_recipes] (map recipe_id matching_recipes))
                 (map (\<lambda>r. r\<lparr>model_score := 0\<rparr>) matching_recipes) of
            Inl e \<Rightarrow> Inl e
          | Inr scored \<Rightarrow>
              Inr (sort_values
                    (map (\<lambda>r. r\<lparr>final_score :=
                            ingredient_score r * (95 / 100) + model_score r * (5 / 100)\<rparr>)
                       scored))))"

section \<open>The orchestrator\<close>

text \<open>
  \<^verbatim>\<open>get_recommendations\<close>, from the loaded models and table on. The result is the
  printed final message with the returned pair \<open>(top_recipe, other_recipes)\<close>.
\<close>

definition get_recommendations ::
  "(row list \<Rightarrow> row list) \<Rightarrow> (string list \<Rightarrow> rat \<Rightarrow> rat list list option) \<Rightarrow> int list
     \<Rightarrow> classifier \<Rightarrow> classifier \<Rightarrow> row list \<Rightarrow> prefs
     \<Rightarrow> message \<times> row option \<times> row list option" where
  "get_recommendations sort_values infer recipe_ids cuisine_clf meal_clf recipe_db prefs0 =
    (let prefs = prefs0\<lparr>pref_ingredients := Some SAMPLE_INGREDIENTS\<rparr>;
         selected_cuisine = lower (cuisine prefs);
         selected_meal_type = meal_category (meal_type prefs);
         requested_servings = (case servings prefs of Some v \<Rightarrow> v | None \<Rightarrow> 4);
         user_ingredients = (case pref_ingredients prefs of Some xs \<Rightarrow> xs | None \<Rightarrow> []);
         allow_subs = (case allow_substitutions prefs of Some b \<Rightarrow> b | None \<Rightarrow> False);
         grocery = (case use_grocery prefs of Some b \<Rightarrow> b | None \<Rightarrow> False)
     in case prefilter cuisine_clf meal_clf recipe_db selected_cuisine selected_meal_type of
          Inl e \<Rightarrow> (Error_generating e, None, None)
        | Inr matching_recipes \<Rightarrow>
            if length matching_recipes = 0 then (No_matching_recipes, None, None)
            else
              (let scored = score_recipes user_ingredients allow_subs grocery matching_recipes;
                   kept = feasible_recipes grocery scored
               in if \<not> grocery \<and> kept = [] then (No_recipes_only_your_ingredients, None, None)
                  else
                    (case rank_recipes sort_values infer recipe_ids requested_servings kept of
                       Inl e \<Rightarrow> (Error_generating e, None, None)
                     | Inr ranked_recipes \<Rightarrow>
                         if length ranked_recipes > 0 then
                           (Top_recipe, Some (hd ranked_recipes),
                            Some (take 10 (drop 1 ranked_recipes)))
                         else (No_suitable_recipes, None, None))))"

section \<open>The library sort\<close>


text \<open>A descending sort that leaves rows with equal scores in the order of the input.\<close>

definition stable_descending :: "row list \<Rightarrow> row list" where
  "stable_descending xs = sort_key (\<lambda>r. - final_score r) xs"

section \<open>Example data\<close>

definition blank_row :: row where
  "blank_row =
    \<lparr>recipe_id = 0, name = [], ingredients = None, ingredients_raw = None, steps = None,
     ingredients_raw_text = [], ingredients_text = [], steps_text = [], full_text = [],
     predicted_cuisine = [], predicted_meal_type = [],
     ingredient_score = 0, model_score = 0, final_score = 0\<rparr>"

text \<open>A recipe that lists flour twice and has no list in \<open>ingredients_raw\<close>.\<close>

definition flour_twice :: row where
  "flour_twice =
    blank_row\<lparr>recipe_id := 1, ingredients := Some [''flour'', ''flour'', ''milk'']\<rparr>"

definition pancake :: row where
  "pancake = blank_row\<lparr>recipe_id := 2, ingredients := Some [''flour'', ''milk''],
               ingredients_raw := Some [''milk'', ''egg'']\<rparr>"

definition pasta :: row where
  "pasta = blank_row\<lparr>recipe_id := 7, name := ''pasta'', ingredients := Some [''pasta''],
             ingredients_raw := Some [''tomato''], steps := Some [''boil'']\<rparr>"

definition bread :: row where
  "bread = blank_row\<lparr>recipe_id := 8, name := ''bread'',
             ingredients := Some [''flour'', ''water'', ''yeast''],
             ingredients_raw := Some [''Flour'', ''warm water''], steps := Some [''bake'']\<rparr>"

text \<open>The two recipes with the labels of the classifiers below, and the ranked bread.\<close>

definition pasta_labelled :: row where
  "pasta_labelled =
    (text_features pasta)\<lparr>predicted_cuisine := ''Italian'', predicted_meal_type := ''Meals''\<rparr>"

definition bread_labelled :: row where
  "bread_labelled =
    (text_features bread)\<lparr>predicted_cuisine := ''Italian'', predicted_meal_type := ''Meals''\<rparr>"


definition tomato_label :: "string \<Rightarrow> string" where
  "tomato_label t = (if t = ''tomato'' then ''Italian'' else ''other'')"

definition italian_label :: "string \<Rightarrow> string" where
  "italian_label t = ''Italian''"

definition meals_label :: "string \<Rightarrow> string" where
  "meals_label t = ''Meals''"

text \<open>Oracles that throw on every call, and a ranking model with one constant column.\<close>

definition failing_classifier :: classifier where
  "failing_classifier batch = None"

definition failing_infer :: "string list \<Rightarrow> rat \<Rightarrow> rat list list option" where
  "failing_infer texts n = None"

definition constant_infer :: "string list \<Rightarrow> rat \<Rightarrow> rat list list option" where
  "constant_infer texts n = Some (map (\<lambda>t. [3 / 10]) texts)"

definition italian_meal :: prefs where
  "italian_meal = \<lparr>cuisine = ''Italian'', meal_type = ''Full Meal'', servings = None,
     pref_ingredients = None, allow_substitutions = None, use_grocery = None\<rparr>"

definition french_snack :: prefs where
  "french_snack = \<lparr>cuisine = ''French'', meal_type = ''Snack'', servings = Some 2,
     pref_ingredients = Some [''tomato''], allow_substitutions = Some True,
     use_grocery = Some False\<rparr>"


section \<open>Properties of the match scorer\<close>

lemma matched_loop_acc:
  "matched_loop A s r m = m + (\<Sum>x\<leftarrow>r. spec_credit A s x)"
  by (induction r arbitrary: m)
     (auto simp: spec_credit_def Let_def list_ex_iff dom_def)

lemma spec_credit_nonneg: "0 \<le> spec_credit A s x"
  by (simp add: spec_credit_def)

lemma matched_loop_nonneg: "0 \<le> matched_loop A s r 0"
  by (auto simp: matched_loop_acc intro!: sum_list_nonneg spec_credit_nonneg)

text \<open>
  C1. In strict mode (\<open>user_willing_to_buy_more = False\<close>) the score is \<open>1\<close> exactly
  when the normalized non-default recipe ingredients are a subset of the normalized
  explicit user ingredients, and \<open>0\<close> otherwise. So the score is always \<open>0\<close> or \<open>1\<close>,
  and default ingredients never affect it: deleting every default ingredient from the
  recipe, or adding one, leaves the score as it was.
\<close>

theorem strict_mode_gate:
  "ingredient_match_score u r s False beta =
     (if {n. \<exists>x \<in> set r. n = lower_strip x \<and> n \<notin> DEFAULT_INGREDIENTS}
           \<subseteq> lower_strip ` set u
      then 1 else 0)
   \<and> ingredient_match_score u r s False beta \<in> {0, 1}
   \<and> ingredient_match_score u
         (filter (\<lambda>x. lower_strip x \<notin> DEFAULT_INGREDIENTS) r) s False beta
       = ingredient_match_score u r s False beta
   \<and> (\<forall>d. lower_strip d \<in> DEFAULT_INGREDIENTS \<longrightarrow>
         ingredient_match_score u (d # r) s False beta
         = ingredient_match_score u r s False beta)"
proof -
  have eq: "set (map lower_strip (filter (\<lambda>r. lower_strip r \<notin> DEFAULT_INGREDIENTS) r))
          = {n. \<exists>x \<in> set r. n = lower_strip x \<and> n \<notin> DEFAULT_INGREDIENTS}" for r
    by auto
  have gate: "ingredient_match_score u r s False beta =
     (if {n. \<exists>x \<in> set r. n = lower_strip x \<and> n \<notin> DEFAULT_INGREDIENTS}
           \<subseteq> lower_strip ` set u
      then 1 else 0)" for r
    unfolding ingredient_match_score_def Let_def eq by simp
  have two: "ingredient_match_score u r s False beta \<in> {0, 1}"
    unfolding gate by simp
  have filt: "ingredient_match_score u
                (filter (\<lambda>x. lower_strip x \<notin> DEFAULT_INGREDIENTS) r) s False beta
       = ingredient_match_score u r s False beta"
    unfolding ingredient_match_score_def Let_def by simp
  have ins: "ingredient_match_score u (d # r) s False beta
         = ingredient_match_score u r s False beta"
    if "lower_strip d \<in> DEFAULT_INGREDIENTS" for d
    using that unfolding ingredient_match_score_def Let_def by simp
  from gate two filt ins show ?thesis by blast
qed

text \<open>
  The gate at the pantry \<open>[yeast, flour]\<close> (scenario A of the specification): water is a
  default ingredient, and the recipe \<open>[flour, yeast]\<close> scores \<open>1\<close> with or without
  water in front of it.
\<close>

theorem strict_mode_gate_witness:
  "lower_strip ''water'' \<in> DEFAULT_INGREDIENTS
   \<and> ingredient_match_score [''yeast'', ''flour''] (''water'' # [''flour'', ''yeast''])
         False False (1 / 5)
       = ingredient_match_score [''yeast'', ''flour''] [''flour'', ''yeast''] False False (1 / 5)
   \<and> ingredient_match_score [''yeast'', ''flour''] [''flour'', ''yeast''] False False (1 / 5) = 1"
proof -
  have h: "lower_strip ''water'' \<in> DEFAULT_INGREDIENTS"
    by code_simp
  have v: "ingredient_match_score [''yeast'', ''flour''] [''flour'', ''yeast'']
             False False (1 / 5) = 1"
    by code_simp
  from strict_mode_gate [of "[''yeast'', ''flour'']" "[''flour'', ''yeast'']" False "1 / 5"] h v
  show ?thesis by blast
qed

text \<open>
  C2. For every user list, recipe list and both flags, with \<open>beta = 0.2\<close>, the score
  lies between \<open>0\<close> and \<open>1\<close> inclusive.
\<close>

theorem score_bounds:
  "0 \<le> ingredient_match_score u r s w (1 / 5) \<and> ingredient_match_score u r s w (1 / 5) \<le> 1"
proof -
  let ?E = "set (map lower_strip u)"
  let ?bonus = "(if ?E \<noteq> {} then
                       of_nat (length (filter (\<lambda>ingr. lower_strip ingr \<in> ?E) r))
                         / of_nat (card ?E)
                     else 0) :: rat"
  have b: "0 \<le> ?bonus" by simp
  have m: "0 \<le> matched_loop (?E \<union> DEFAULT_INGREDIENTS) s r 0 / of_nat (length r)"
    by (simp add: matched_loop_nonneg)
  have f: "0 \<le> matched_loop (?E \<union> DEFAULT_INGREDIENTS) s r 0 / of_nat (length r)
                  * (1 + 1 / 5 * ?bonus)"
    using m b by (intro mult_nonneg_nonneg) auto
  show ?thesis
    unfolding ingredient_match_score_def Let_def using f by auto
qed

text \<open>
  C3. In flexible mode the loop adds, for each recipe ingredient, the credit the
  specification describes: \<open>1\<close> for a direct match in the augmented set, \<open>1/2\<close> for an
  allowed substitution one of whose substitutes is in the augmented set, \<open>0\<close> otherwise.
  For the user \<open>[almond milk]\<close> and the recipe \<open>[milk]\<close>, with substitutions allowed
  and the user willing to buy more, the score is \<open>1/2\<close> (for every \<open>beta\<close>).
\<close>

theorem flexible_matched_credit:
  "matched_loop (set (map lower_strip u) \<union> DEFAULT_INGREDIENTS) s r 0
     = (\<Sum>x\<leftarrow>r. spec_credit (set (map lower_strip u) \<union> DEFAULT_INGREDIENTS) s x)
   \<and> ingredient_match_score [''almond milk''] [''milk''] True True beta = 1 / 2"
proof -
  have m: "matched_loop (set (map lower_strip [''almond milk'']) \<union> DEFAULT_INGREDIENTS)
             True [''milk''] 0 = 1 / 2"
    by code_simp
  have f: "filter (\<lambda>ingr. lower_strip ingr \<in> set (map lower_strip [''almond milk'']))
             [''milk''] = []"
    by code_simp
  have "ingredient_match_score [''almond milk''] [''milk''] True True beta = 1 / 2"
    unfolding ingredient_match_score_def Let_def m f by simp
  then show ?thesis by (simp add: matched_loop_acc)
qed

text \<open>
  C4. In flexible mode, for a recipe with at least one ingredient, the score is
  \<open>base_score * (1 + beta * bonus)\<close> capped at \<open>1\<close>, where \<open>base_score\<close> is the sum of
  the credits divided by the number of recipe ingredients and \<open>bonus\<close> is the number of
  recipe ingredients whose normalized form is in the explicit user set divided by the
  size of that set (\<open>0\<close> when the set is empty); a recipe with no ingredient scores \<open>1\<close>.
  With \<open>beta = 0.2\<close>, the user \<open>[milk]\<close> and the recipe \<open>[milk, flour]\<close> the score is
  \<open>0.6\<close>, whether substitutions are allowed or not.
\<close>

theorem flexible_final_score:
  "ingredient_match_score u r s True beta =
     (if r = [] then 1
      else min ((\<Sum>x\<leftarrow>r. spec_credit (lower_strip ` set u \<union> DEFAULT_INGREDIENTS) s x)
                  / of_nat (length r)
                * (1 + beta *
                    (if lower_strip ` set u = {} then 0
                     else of_nat (length (filter (\<lambda>x. lower_strip x \<in> lower_strip ` set u) r))
                          / of_nat (card (lower_strip ` set u)))))
               1)
   \<and> ingredient_match_score [''milk''] [''milk'', ''flour''] s True (1 / 5) = 3 / 5"
proof -
  have t: "ingredient_match_score [''milk''] [''milk'', ''flour''] True True (1 / 5) = 3 / 5"
    by code_simp
  have f: "ingredient_match_score [''milk''] [''milk'', ''flour''] False True (1 / 5) = 3 / 5"
    by code_simp
  have c: "ingredient_match_score [''milk''] [''milk'', ''flour''] s True (1 / 5) = 3 / 5"
    using t f by (cases s) simp_all
  have g: "ingredient_match_score u r s True beta =
     (if r = [] then 1
      else min ((\<Sum>x\<leftarrow>r. spec_credit (lower_strip ` set u \<union> DEFAULT_INGREDIENTS) s x)
                  / of_nat (length r)
                * (1 + beta *
                    (if lower_strip ` set u = {} then 0
                     else of_nat (length (filter (\<lambda>x. lower_strip x \<in> lower_strip ` set u) r))
                          / of_nat (card (lower_strip ` set u)))))
               1)"
    unfolding ingredient_match_score_def Let_def matched_loop_acc by simp
  from g c show ?thesis by blast
qed

text \<open>
  C10. In strict mode the score does not depend on the substitution policy or on
  \<open>beta\<close>: two calls that differ only in those two arguments return the same value.
\<close>

theorem strict_mode_ignores_policy:
  "ingredient_match_score u r s False beta = ingredient_match_score u r s' False beta'"
  by (simp add: ingredient_match_score_def)

section \<open>Properties of the ingredient-score stage\<close>

lemma sum_list_mset_cong:
  "mset xs = mset ys \<Longrightarrow> (\<Sum>x\<leftarrow>xs. (f x :: rat)) = (\<Sum>x\<leftarrow>ys. f x)"
proof -
  assume a: "mset xs = mset ys"
  have "(\<Sum>x\<leftarrow>xs. f x) = sum_mset (image_mset f (mset xs))"
    by (metis mset_map sum_mset_sum_list)
  also have "\<dots> = sum_mset (image_mset f (mset ys))" using a by simp
  also have "\<dots> = (\<Sum>x\<leftarrow>ys. f x)"
    by (metis mset_map sum_mset_sum_list)
  finally show ?thesis .
qed

lemma length_filter_mset_cong:
  "mset xs = mset ys \<Longrightarrow> length (filter P xs) = length (filter P ys)"
  by (metis mset_filter size_mset)

lemma score_mset_cong:
  assumes "mset xs = mset ys"
  shows "ingredient_match_score u xs a g b = ingredient_match_score u ys a g b"
proof -
  have s: "set xs = set ys" using assms by (rule mset_eq_setD)
  have l: "length xs = length ys" using assms by (rule mset_eq_length)
  have nd: "set (map lower_strip (filter (\<lambda>r. lower_strip r \<notin> DEFAULT_INGREDIENTS) xs))
          = set (map lower_strip (filter (\<lambda>r. lower_strip r \<notin> DEFAULT_INGREDIENTS) ys))"
    using s by auto
  have m: "matched_loop A a xs 0 = matched_loop A a ys 0" for A
    by (simp add: matched_loop_acc sum_list_mset_cong [OF assms])
  have c: "length (filter P xs) = length (filter P ys)" for P
    using assms by (rule length_filter_mset_cong)
  show ?thesis
    unfolding ingredient_match_score_def Let_def nd l m c ..
qed

lemma effective_union:
  "ingredients_raw r = Some raw \<Longrightarrow>
     distinct (effective_ingredients r) \<and>
     set (effective_ingredients r) = set (as_list (ingredients r)) \<union> set raw"
  by (simp add: effective_ingredients_def)

text \<open>
  C5 (as amended). The scoring stage assigns to every recipe the match score of its
  effective ingredient list against the user's ingredients, with the two policy flags
  and \<open>beta = 0.2\<close>. When the cell \<open>ingredients_raw\<close> is a list, the effective list
  is the set union of \<open>ingredients\<close> and \<open>ingredients_raw\<close> with duplicates
  collapsed, and the score is the same for every duplicate-free listing of that union,
  so the order Python gives the set does not matter. When the cell is not a list, the
  effective list is \<open>ingredients\<close> as it stands, duplicates kept.
\<close>

theorem effective_ingredient_list:
  "map ingredient_score (score_recipes u a g rows)
     = map (\<lambda>r. ingredient_match_score u (effective_ingredients r) a g (1 / 5)) rows
   \<and> (\<forall>raw. ingredients_raw r = Some raw \<longrightarrow>
         distinct (effective_ingredients r)
         \<and> set (effective_ingredients r) = set (as_list (ingredients r)) \<union> set raw
         \<and> (\<forall>xs. distinct xs \<and> set xs = set (as_list (ingredients r)) \<union> set raw \<longrightarrow>
               ingredient_match_score u xs a g b
               = ingredient_match_score u (effective_ingredients r) a g b))
   \<and> (ingredients_raw r = None \<longrightarrow> effective_ingredients r = as_list (ingredients r))"
proof -
  have one: "map ingredient_score (score_recipes u a g rows)
     = map (\<lambda>r. ingredient_match_score u (effective_ingredients r) a g (1 / 5)) rows"
    by (simp add: score_recipes_def comp_def)
  have two: "distinct (effective_ingredients r)
         \<and> set (effective_ingredients r) = set (as_list (ingredients r)) \<union> set raw
         \<and> (\<forall>xs. distinct xs \<and> set xs = set (as_list (ingredients r)) \<union> set raw \<longrightarrow>
               ingredient_match_score u xs a g b
               = ingredient_match_score u (effective_ingredients r) a g b)"
    if h: "ingredients_raw r = Some raw" for raw
  proof -
    note e = effective_union [OF h]
    have "ingredient_match_score u xs a g b
               = ingredient_match_score u (effective_ingredients r) a g b"
      if x: "distinct xs \<and> set xs = set (as_list (ingredients r)) \<union> set raw" for xs
    proof -
      have "mset xs = mset (effective_ingredients r)"
        using x e by (metis set_eq_iff_mset_eq_distinct)
      then show ?thesis by (rule score_mset_cong)
    qed
    with e show ?thesis by blast
  qed
  have three: "effective_ingredients r = as_list (ingredients r)" if "ingredients_raw r = None"
    using that by (simp add: effective_ingredients_def)
  from one two three show ?thesis by blast
qed

text \<open>
  The pancake recipe has a list in \<open>ingredients_raw\<close>: its effective list is the
  union \<open>[flour, milk, egg]\<close>, and another listing of the union scores the same. The
  recipe \<open>flour_twice\<close> has none: its effective list is its \<open>ingredients\<close>.
\<close>

theorem effective_ingredient_list_witness:
  "ingredients_raw pancake = Some [''milk'', ''egg'']
   \<and> distinct [''egg'', ''milk'', ''flour'']
   \<and> set [''egg'', ''milk'', ''flour''] = set (as_list (ingredients pancake)) \<union> set [''milk'', ''egg'']
   \<and> effective_ingredients pancake = [''flour'', ''milk'', ''egg'']
   \<and> ingredient_match_score SAMPLE_INGREDIENTS [''egg'', ''milk'', ''flour''] False True (1 / 5)
       = ingredient_match_score SAMPLE_INGREDIENTS (effective_ingredients pancake) False True (1 / 5)
   \<and> ingredients_raw flour_twice = None
   \<and> effective_ingredients flour_twice = as_list (ingredients flour_twice)"
proof -
  have a: "ingredients_raw pancake = Some [''milk'', ''egg'']" by code_simp
  have b: "distinct [''egg'', ''milk'', ''flour'']" by code_simp
  have c: "set [''egg'', ''milk'', ''flour'']
           = set (as_list (ingredients pancake)) \<union> set [''milk'', ''egg'']"
    by code_simp
  have d: "effective_ingredients pancake = [''flour'', ''milk'', ''egg'']" by code_simp
  have e: "ingredients_raw flour_twice = None" by code_simp
  from effective_ingredient_list
         [of SAMPLE_INGREDIENTS False True "[]" pancake "1 / 5"] a b c
  have s: "ingredient_match_score SAMPLE_INGREDIENTS [''egg'', ''milk'', ''flour''] False True (1 / 5)
       = ingredient_match_score SAMPLE_INGREDIENTS (effective_ingredients pancake) False True (1 / 5)"
    by blast
  from effective_ingredient_list
         [of SAMPLE_INGREDIENTS False True "[]" flour_twice "1 / 5"] e
  have f: "effective_ingredients flour_twice = as_list (ingredients flour_twice)"
    by blast
  from a b c d s e f show ?thesis by blast
qed

text \<open>
  C5 as stated fails where \<open>ingredients_raw\<close> is not a list: for \<open>flour_twice\<close>, in
  flexible mode, the stage assigns \<open>4/5\<close>, the score of \<open>[flour, flour, milk]\<close>,
  while the union with duplicates collapsed, \<open>[flour, milk]\<close>, scores \<open>11/20\<close>.
\<close>

theorem effective_ingredient_list_counterexample:
  "ingredients_raw flour_twice = None
   \<and> map ingredient_score (score_recipes SAMPLE_INGREDIENTS False True [flour_twice]) = [4 / 5]
   \<and> ingredient_match_score SAMPLE_INGREDIENTS
        (remdups (as_list (ingredients flour_twice) @ as_list (ingredients_raw flour_twice)))
        False True (1 / 5) = 11 / 20"
  by code_simp


section \<open>Properties of the cuisine and meal-type filter\<close>

declare predict_in_batches.simps [simp del]

lemma predict_pointwise_acc:
  "clf = pointwise c \<Longrightarrow> predict_in_batches clf col i acc = Some (acc @ map c (drop i col))"
proof (induction clf col i acc rule: predict_in_batches.induct)
  case (1 clf col i acc)
  show ?case
  proof (cases "i < length col")
    case True
    have clf: "clf (take batch_size (drop i col)) = Some (map c (take batch_size (drop i col)))"
      using "1.prems" by (simp add: pointwise_def)
    have "predict_in_batches clf col i acc
        = predict_in_batches clf col (i + batch_size)
            (acc @ map c (take batch_size (drop i col)))"
      using True clf by (subst predict_in_batches.simps) simp
    also have "\<dots> = Some ((acc @ map c (take batch_size (drop i col)))
                        @ map c (drop (i + batch_size) col))"
      using "1.IH" [OF True clf "1.prems"] .
    finally have step: "predict_in_batches clf col i acc
        = Some (acc @ (map c (take batch_size (drop i col))
                       @ map c (drop (i + batch_size) col)))"
      by simp
    have "map c (take batch_size (drop i col)) @ map c (drop (i + batch_size) col)
             = map c (drop i col)"
      by (metis add.commute append_take_drop_id drop_drop map_append)
    with step show ?thesis by simp
  next
    case False
    then show ?thesis by (subst predict_in_batches.simps) simp
  qed
qed

lemma prefilter_empty_table:
  "prefilter cuisine_clf meal_clf [] selected_cuisine selected_meal_type = Inl Attribute_error"
proof -
  have "predict_in_batches clf [] 0 [] = Some []" for clf
    by (subst predict_in_batches.simps) simp
  then show ?thesis by (simp add: prefilter_def)
qed

lemma predict_pointwise:
  "predict_in_batches (pointwise c) col 0 [] = Some (map c col)"
  by (simp add: predict_pointwise_acc)

lemma map_zip_self: "map h (zip (map f xs) (map g xs)) = map (\<lambda>x. h (f x, g x)) xs"
  by (induction xs) auto

lemma text_features_fields:
  "ingredients_raw_text (text_features r) = join_cell (ingredients_raw r)"
  "full_text (text_features r)
     = join (as_list (ingredients r)) @ '' '' @ join_cell (ingredients_raw r) @ '' ''
       @ join_cell (steps r)"
  by (simp_all add: text_features_def Let_def join_cell_def)

lemma meal_category_lower: "lower (meal_category tm) = meal_category tm"
proof -
  have l: "lower ''breakfast'' = ''breakfast''" "lower ''meals'' = ''meals''"
    "lower ''sweet treat'' = ''sweet treat''" "lower ''snacks'' = ''snacks''"
    "lower ''unknown'' = ''unknown''"
    by code_simp+
  have "meal_category tm \<in> {''breakfast'', ''meals'', ''sweet treat'', ''snacks'', ''unknown''}"
    by (simp add: meal_category_def USER_TO_CATEGORY_def)
  then show ?thesis using l by auto
qed

text \<open>
  C7 (as amended). With classifiers that label each text of a batch on its own, for
  every recipe of a corpus that is not empty the filter gives the cuisine oracle the
  raw-ingredient text alone and the meal-type oracle the full text, which is the
  concatenation, in order, of the canonical-ingredient text, the raw-ingredient text and
  the step text, separated by single spaces. It keeps exactly the recipes whose two
  predicted labels equal the target cuisine and the target meal category without regard
  to case. The result does not depend on the batch size.
\<close>

theorem corpus_filter_feature_texts:
  assumes "db \<noteq> []"
  shows "prefilter (pointwise c) (pointwise m) db (lower tc) (meal_category tm) =
     Inr (filter (\<lambda>r. lower (predicted_cuisine r) = lower tc
                     \<and> lower (predicted_meal_type r) = lower (meal_category tm))
            (map (\<lambda>r. (text_features r)
                    \<lparr>predicted_cuisine := c (join_cell (ingredients_raw r)),
                     predicted_meal_type :=
                       m (join (as_list (ingredients r)) @ '' '' @ join_cell (ingredients_raw r)
                          @ '' '' @ join_cell (steps r))\<rparr>)
               db))"
  unfolding prefilter_def Let_def using assms
  by (simp add: predict_pointwise map_zip_self comp_def text_features_fields
        meal_category_lower)

text \<open>
  The corpus of the one recipe \<open>pasta\<close>: the cuisine oracle labels its raw-ingredient
  text \<open>tomato\<close>, and the recipe is kept for the target \<open>Italian\<close>, \<open>Full Meal\<close>.
\<close>

theorem corpus_filter_feature_texts_witness:
  "[pasta] \<noteq> []
   \<and> prefilter (pointwise tomato_label) (pointwise meals_label) [pasta]
        (lower ''Italian'') (meal_category ''Full Meal'') = Inr [pasta_labelled]"
proof -
  have n: "[pasta] \<noteq> []" by simp
  have "Inr (filter (\<lambda>r. lower (predicted_cuisine r) = lower ''Italian''
                     \<and> lower (predicted_meal_type r) = lower (meal_category ''Full Meal''))
            (map (\<lambda>r. (text_features r)
                    \<lparr>predicted_cuisine := tomato_label (join_cell (ingredients_raw r)),
                     predicted_meal_type :=
                       meals_label (join (as_list (ingredients r)) @ '' ''
                          @ join_cell (ingredients_raw r) @ '' '' @ join_cell (steps r))\<rparr>)
               [pasta]))
        = (Inr [pasta_labelled] :: exn + row list)"
    by code_simp
  with corpus_filter_feature_texts [OF n, of tomato_label meals_label "''Italian''" "''Full Meal''"]
  show ?thesis by simp
qed

text \<open>
  C7 as stated fails: the cuisine oracle \<open>tomato_label\<close> answers \<open>Italian\<close> only on
  the text \<open>tomato\<close>. The filter keeps recipe 7, whose raw-ingredient text is
  \<open>tomato\<close>, although the label of its full text is not the target cuisine.
\<close>

theorem corpus_filter_feature_texts_counterexample:
  "map recipe_id
     (case prefilter (pointwise tomato_label) (pointwise meals_label) [pasta]
             (lower ''Italian'') (meal_category ''Full Meal'') of
        Inl e \<Rightarrow> [] | Inr rows \<Rightarrow> rows) = [7]
   \<and> full_text (text_features pasta) = ''pasta tomato boil''
   \<and> lower (tomato_label (full_text (text_features pasta))) \<noteq> lower ''Italian''"
  by code_simp

section \<open>Properties of the orchestrator\<close>


lemma full_text_zip:
  "length xs = length cs \<Longrightarrow>
     map full_text (map (\<lambda>(r, c). r\<lparr>predicted_cuisine := c\<rparr>) (zip xs cs)) = map full_text xs"
  by (induction xs cs rule: list_induct2) auto



lemma get_recommendations_unfold:
  assumes "prefilter cuisine_clf meal_clf recipe_db (lower (cuisine p))
             (meal_category (meal_type p)) = Inr matching"
    and "g = (case use_grocery p of Some b \<Rightarrow> b | None \<Rightarrow> False)"
    and "a = (case allow_substitutions p of Some b \<Rightarrow> b | None \<Rightarrow> False)"
    and "kept = feasible_recipes g (score_recipes SAMPLE_INGREDIENTS a g matching)"
    and "R = rank_recipes srt infer ids (case servings p of Some v \<Rightarrow> v | None \<Rightarrow> 4) kept"
  shows "get_recommendations srt infer ids cuisine_clf meal_clf recipe_db p =
    (if matching = [] then (No_matching_recipes, None, None)
     else if \<not> g \<and> kept = [] then (No_recipes_only_your_ingredients, None, None)
     else
       (case R of
          Inl e \<Rightarrow> (Error_generating e, None, None)
        | Inr ranked \<Rightarrow>
            if length ranked > 0
            then (Top_recipe, Some (hd ranked), Some (take 10 (drop 1 ranked)))
            else (No_suitable_recipes, None, None)))"
  unfolding get_recommendations_def Let_def assms(2-5) using assms(1)
  by (cases "case use_grocery p of Some b \<Rightarrow> b | None \<Rightarrow> False") simp_all





text \<open>
  C9 (as amended). When a classifier or the ranking oracle throws, the handler of
  \<open>get_recommendations\<close> catches the exception, prints the error and returns
  \<open>(None, None)\<close>: there is no fallback score and no partial ranking, and only the
  message \<open>Top_recipe\<close> comes with a recipe. The returned pair is the one of the two
  empty results.
\<close>

theorem oracle_failure_outcome:
  "(\<forall>e. prefilter cuisine_clf meal_clf recipe_db (lower (cuisine p))
           (meal_category (meal_type p)) = Inl e \<longrightarrow>
        get_recommendations srt infer ids cuisine_clf meal_clf recipe_db p
          = (Error_generating e, None, None))
   \<and> (predict_in_batches cuisine_clf
         (map (\<lambda>r. join_cell (ingredients_raw r)) recipe_db) 0 [] = None \<longrightarrow>
        prefilter cuisine_clf meal_clf recipe_db sc sm = Inl Oracle_failure)
   \<and> (\<forall>cuisines.
        predict_in_batches cuisine_clf
          (map (\<lambda>r. join_cell (ingredients_raw r)) recipe_db) 0 [] = Some cuisines
        \<and> length cuisines = length recipe_db
        \<and> predict_in_batches meal_clf
              (map (\<lambda>r. full_text (text_features r)) recipe_db) 0 [] = None
        \<longrightarrow> prefilter cuisine_clf meal_clf recipe_db sc sm = Inl Oracle_failure)
   \<and> (\<forall>matching.
        prefilter cuisine_clf meal_clf recipe_db (lower (cuisine p))
          (meal_category (meal_type p)) = Inr matching
        \<and> feasible_recipes (case use_grocery p of Some b \<Rightarrow> b | None \<Rightarrow> False)
            (score_recipes SAMPLE_INGREDIENTS
              (case allow_substitutions p of Some b \<Rightarrow> b | None \<Rightarrow> False)
              (case use_grocery p of Some b \<Rightarrow> b | None \<Rightarrow> False) matching) \<noteq> []
        \<and> infer (map full_text
              (feasible_recipes (case use_grocery p of Some b \<Rightarrow> b | None \<Rightarrow> False)
                (score_recipes SAMPLE_INGREDIENTS
                  (case allow_substitutions p of Some b \<Rightarrow> b | None \<Rightarrow> False)
                  (case use_grocery p of Some b \<Rightarrow> b | None \<Rightarrow> False) matching)))
            (case servings p of Some v \<Rightarrow> v | None \<Rightarrow> 4) = None
        \<longrightarrow> get_recommendations srt infer ids cuisine_clf meal_clf recipe_db p
              = (Error_generating Oracle_failure, None, None))
   \<and> (fst (get_recommendations srt infer ids cuisine_clf meal_clf recipe_db p) \<noteq> Top_recipe
        \<longrightarrow> snd (get_recommendations srt infer ids cuisine_clf meal_clf recipe_db p)
              = (None, None))"
proof -
  have one: "get_recommendations srt infer ids cuisine_clf meal_clf recipe_db p
          = (Error_generating e, None, None)"
    if "prefilter cuisine_clf meal_clf recipe_db (lower (cuisine p))
           (meal_category (meal_type p)) = Inl e" for e
    unfolding get_recommendations_def Let_def using that by simp
  have two: "prefilter cuisine_clf meal_clf recipe_db sc sm = Inl Oracle_failure"
    if "predict_in_batches cuisine_clf
         (map (\<lambda>r. join_cell (ingredients_raw r)) recipe_db) 0 [] = None"
  proof -
    have e: "map ingredients_raw_text (map text_features recipe_db)
           = map (\<lambda>r. join_cell (ingredients_raw r)) recipe_db"
      by (simp add: text_features_def Let_def)
    show ?thesis unfolding prefilter_def Let_def e that by simp
  qed
  have meal: "prefilter cuisine_clf meal_clf recipe_db sc sm = Inl Oracle_failure"
    if c: "predict_in_batches cuisine_clf
          (map (\<lambda>r. join_cell (ingredients_raw r)) recipe_db) 0 [] = Some cuisines"
      and l: "length cuisines = length recipe_db"
      and m: "predict_in_batches meal_clf
              (map (\<lambda>r. full_text (text_features r)) recipe_db) 0 [] = None"
    for cuisines
  proof -
    have e: "map ingredients_raw_text (map text_features recipe_db)
           = map (\<lambda>r. join_cell (ingredients_raw r)) recipe_db"
      by (simp add: text_features_def Let_def)
    have f: "map full_text (map (\<lambda>(r, c). r\<lparr>predicted_cuisine := c\<rparr>)
                              (zip (map text_features recipe_db) cuisines))
           = map (\<lambda>r. full_text (text_features r)) recipe_db"
    proof -
      have "map full_text (map (\<lambda>(r, c). r\<lparr>predicted_cuisine := c\<rparr>)
                              (zip (map text_features recipe_db) cuisines))
          = map full_text (map text_features recipe_db)"
        by (rule full_text_zip) (simp add: l)
      also have "\<dots> = map (\<lambda>r. full_text (text_features r)) recipe_db"
        by (simp add: comp_def)
      finally show ?thesis .
    qed
    show ?thesis unfolding prefilter_def Let_def e c option.case f m using l by simp
  qed
  have three: "get_recommendations srt infer ids cuisine_clf meal_clf recipe_db p
              = (Error_generating Oracle_failure, None, None)"
    if pf: "prefilter cuisine_clf meal_clf recipe_db (lower (cuisine p))
          (meal_category (meal_type p)) = Inr matching"
      and ne: "feasible_recipes (case use_grocery p of Some b \<Rightarrow> b | None \<Rightarrow> False)
            (score_recipes SAMPLE_INGREDIENTS
              (case allow_substitutions p of Some b \<Rightarrow> b | None \<Rightarrow> False)
              (case use_grocery p of Some b \<Rightarrow> b | None \<Rightarrow> False) matching) \<noteq> []"
      and f: "infer (map full_text
              (feasible_recipes (case use_grocery p of Some b \<Rightarrow> b | None \<Rightarrow> False)
                (score_recipes SAMPLE_INGREDIENTS
                  (case allow_substitutions p of Some b \<Rightarrow> b | None \<Rightarrow> False)
                  (case use_grocery p of Some b \<Rightarrow> b | None \<Rightarrow> False) matching)))
            (case servings p of Some v \<Rightarrow> v | None \<Rightarrow> 4) = None"
    for matching
  proof -
    have m: "matching \<noteq> []"
      using ne by (auto simp: feasible_recipes_def score_recipes_def split: if_splits)
    have "rank_recipes srt infer ids (case servings p of Some v \<Rightarrow> v | None \<Rightarrow> 4)
            (feasible_recipes (case use_grocery p of Some b \<Rightarrow> b | None \<Rightarrow> False)
              (score_recipes SAMPLE_INGREDIENTS
                (case allow_substitutions p of Some b \<Rightarrow> b | None \<Rightarrow> False)
                (case use_grocery p of Some b \<Rightarrow> b | None \<Rightarrow> False) matching))
          = Inl Oracle_failure"
      unfolding rank_recipes_def using f by simp
    then show ?thesis using m ne
      by (simp add: get_recommendations_unfold [OF pf refl refl refl refl])
  qed
  have four: "snd (get_recommendations srt infer ids cuisine_clf meal_clf recipe_db p)
              = (None, None)"
    if "fst (get_recommendations srt infer ids cuisine_clf meal_clf recipe_db p) \<noteq> Top_recipe"
  proof (cases "prefilter cuisine_clf meal_clf recipe_db (lower (cuisine p))
                  (meal_category (meal_type p))")
    case (Inl e)
    from one [OF Inl] show ?thesis by simp
  next
    case (Inr matching)
    define g where "g = (case use_grocery p of Some b \<Rightarrow> b | None \<Rightarrow> False)"
    define a where "a = (case allow_substitutions p of Some b \<Rightarrow> b | None \<Rightarrow> False)"
    define kept where "kept = feasible_recipes g (score_recipes SAMPLE_INGREDIENTS a g matching)"
    define R where
      "R = rank_recipes srt infer ids (case servings p of Some v \<Rightarrow> v | None \<Rightarrow> 4) kept"
    note u = get_recommendations_unfold [OF Inr g_def a_def kept_def R_def]
    show ?thesis
      using that unfolding u by (cases R) (simp_all split: if_splits)
  qed
  from one two meal three four show ?thesis by blast
qed

text \<open>
  A cuisine classifier that throws, a meal-type classifier that throws and a ranking
  oracle that throws, each at the bread recipe.
\<close>

theorem oracle_failure_outcome_witness:
  "prefilter failing_classifier (pointwise meals_label) [bread] (lower (cuisine italian_meal))
     (meal_category (meal_type italian_meal)) = Inl Oracle_failure
   \<and> predict_in_batches failing_classifier
        (map (\<lambda>r. join_cell (ingredients_raw r)) [bread]) 0 [] = None
   \<and> get_recommendations stable_descending constant_infer [8] failing_classifier
        (pointwise meals_label) [bread] italian_meal
      = (Error_generating Oracle_failure, None, None)
   \<and> predict_in_batches (pointwise italian_label)
        (map (\<lambda>r. join_cell (ingredients_raw r)) [bread]) 0 [] = Some [''Italian'']
   \<and> length [''Italian''] = length [bread]
   \<and> predict_in_batches failing_classifier
        (map (\<lambda>r. full_text (text_features r)) [bread]) 0 [] = None
   \<and> get_recommendations stable_descending constant_infer [8] (pointwise italian_label)
        failing_classifier [bread] italian_meal
      = (Error_generating Oracle_failure, None, None)
   \<and> prefilter (pointwise italian_label) (pointwise meals_label) [bread]
        (lower (cuisine italian_meal)) (meal_category (meal_type italian_meal))
      = Inr [bread_labelled]
   \<and> feasible_recipes False (score_recipes SAMPLE_INGREDIENTS False False [bread_labelled]) \<noteq> []
   \<and> failing_infer
        (map full_text
          (feasible_recipes False
            (score_recipes SAMPLE_INGREDIENTS False False [bread_labelled]))) 4 = None
   \<and> get_recommendations stable_descending failing_infer [8] (pointwise italian_label)
        (pointwise meals_label) [bread] italian_meal
      = (Error_generating Oracle_failure, None, None)
   \<and> fst (get_recommendations stable_descending failing_infer [8] (pointwise italian_label)
        (pointwise meals_label) [bread] italian_meal) \<noteq> Top_recipe
   \<and> snd (get_recommendations stable_descending failing_infer [8] (pointwise italian_label)
        (pointwise meals_label) [bread] italian_meal) = (None, None)"
proof -
  have b: "predict_in_batches failing_classifier
        (map (\<lambda>r. join_cell (ingredients_raw r)) [bread]) 0 [] = None"
    by code_simp
  have p3: "prefilter (pointwise italian_label) (pointwise meals_label) [bread]
         (lower (cuisine italian_meal)) (meal_category (meal_type italian_meal))
       = Inr [bread_labelled]"
    by code_simp
  have g: "(case use_grocery italian_meal of Some b \<Rightarrow> b | None \<Rightarrow> False) = False"
    by code_simp
  have al: "(case allow_substitutions italian_meal of Some b \<Rightarrow> b | None \<Rightarrow> False) = False"
    by code_simp
  have sv: "(case servings italian_meal of Some v \<Rightarrow> v | None \<Rightarrow> 4) = 4"
    by code_simp
  have k: "feasible_recipes False (score_recipes SAMPLE_INGREDIENTS False False [bread_labelled])
            \<noteq> []"
    by code_simp
  have f: "failing_infer
        (map full_text
          (feasible_recipes False
            (score_recipes SAMPLE_INGREDIENTS False False [bread_labelled]))) 4 = None"
    by (simp add: failing_infer_def)
  note t1 = oracle_failure_outcome
    [of failing_classifier "pointwise meals_label" "[bread]" italian_meal
        stable_descending constant_infer "[8]" "lower (cuisine italian_meal)"
        "meal_category (meal_type italian_meal)"]
  from t1 b have q: "prefilter failing_classifier (pointwise meals_label) [bread]
     (lower (cuisine italian_meal)) (meal_category (meal_type italian_meal))
     = Inl Oracle_failure"
    by blast
  with t1 have e1: "get_recommendations stable_descending constant_infer [8] failing_classifier
        (pointwise meals_label) [bread] italian_meal
      = (Error_generating Oracle_failure, None, None)"
    by blast
  have mc: "predict_in_batches (pointwise italian_label)
        (map (\<lambda>r. join_cell (ingredients_raw r)) [bread]) 0 [] = Some [''Italian'']"
    by code_simp
  have ml: "length [''Italian''] = length [bread]" by simp
  have mm: "predict_in_batches failing_classifier
        (map (\<lambda>r. full_text (text_features r)) [bread]) 0 [] = None"
    by code_simp
  note t3 = oracle_failure_outcome
    [of "pointwise italian_label" failing_classifier "[bread]" italian_meal
        stable_descending constant_infer "[8]" "lower (cuisine italian_meal)"
        "meal_category (meal_type italian_meal)"]
  from t3 mc ml mm have "prefilter (pointwise italian_label) failing_classifier [bread]
     (lower (cuisine italian_meal)) (meal_category (meal_type italian_meal))
     = Inl Oracle_failure"
    by blast
  with t3 have e3: "get_recommendations stable_descending constant_infer [8]
        (pointwise italian_label) failing_classifier [bread] italian_meal
      = (Error_generating Oracle_failure, None, None)"
    by blast
  note t2 = oracle_failure_outcome
    [of "pointwise italian_label" "pointwise meals_label" "[bread]" italian_meal
        stable_descending failing_infer "[8]" "lower (cuisine italian_meal)"
        "meal_category (meal_type italian_meal)"]
  from t2 p3 k f have e2: "get_recommendations stable_descending failing_infer [8]
        (pointwise italian_label) (pointwise meals_label) [bread] italian_meal
      = (Error_generating Oracle_failure, None, None)"
    unfolding g al sv by blast
  then have n: "fst (get_recommendations stable_descending failing_infer [8]
        (pointwise italian_label) (pointwise meals_label) [bread] italian_meal) \<noteq> Top_recipe"
    by simp
  with t2 have s: "snd (get_recommendations stable_descending failing_infer [8]
        (pointwise italian_label) (pointwise meals_label) [bread] italian_meal) = (None, None)"
    by blast
  from q b e1 mc ml mm e3 p3 k f e2 n s show ?thesis by (intro conjI)
qed

text \<open>
  C9 as stated fails: with a cuisine classifier that throws the call returns normally,
  and it returns the pair \<open>(None, None)\<close> that it returns when no recipe of the corpus
  is predicted French.
\<close>

theorem oracle_failure_outcome_counterexample:
  "get_recommendations stable_descending constant_infer [8] failing_classifier
     (pointwise meals_label) [bread] italian_meal
     = (Error_generating Oracle_failure, None, None)
   \<and> get_recommendations stable_descending constant_infer [8] (pointwise italian_label)
       (pointwise meals_label) [pasta, bread] french_snack
     = (No_matching_recipes, None, None)
   \<and> snd (get_recommendations stable_descending constant_infer [8] failing_classifier
            (pointwise meals_label) [bread] italian_meal)
     = snd (get_recommendations stable_descending constant_infer [8] (pointwise italian_label)
              (pointwise meals_label) [pasta, bread] french_snack)"
  by code_simp

end
